theory Spec2Isabelle
  imports Main "HOL-Library.AList"
begin

section \<open>buildbot-slack: the Slack status reporter (reporter.py)\<close>

text \<open>
  A shallow embedding of \<^verbatim>\<open>src/buildbot_slack/reporter.py\<close>. Python dictionaries that
  are built by the reporter (the payload, the attachments, the fields) are association
  lists in insertion order, written with \<open>AList.update\<close>, which replaces the value of
  a key that is present and appends a new key at the end, as a Python \<open>dict\<close> does.
  The dictionaries that the reporter only reads (build, buildset, sourcestamp, report)
  are records. Calls that leave the reporter (the data API of the master, the HTTP
  client, the logger) are events of a trace, and what the outside answers is given by
  the functions of an environment.
\<close>

subsection \<open>Values\<close>

datatype json =
    JStr string
  | JBool bool
  | JList "json list"
  | JDict "(string \<times> json) list"

type_synonym pydict = "(string \<times> json) list"

datatype exn =
    IndexError
  | Exception string

text \<open>\<open>d.get(k, default)\<close> on a dictionary of strings.\<close>

definition dict_get :: "(string \<times> string) list \<Rightarrow> string \<Rightarrow> string \<Rightarrow> string" where
  "dict_get d k dflt = (case map_of d k of None \<Rightarrow> dflt | Some v \<Rightarrow> v)"

text \<open>Truth value of a string that may be \<open>None\<close>, and of an integer that may be \<open>None\<close>.\<close>

definition truthy_str :: "string option \<Rightarrow> bool" where
  "truthy_str s = (case s of None \<Rightarrow> False | Some v \<Rightarrow> v \<noteq> [])"

definition truthy_int :: "int option \<Rightarrow> bool" where
  "truthy_int n = (case n of None \<Rightarrow> False | Some v \<Rightarrow> v \<noteq> 0)"

text \<open>\<open>str\<close> of an integer, and of a value that may be \<open>None\<close>, as \<open>format\<close> prints them.\<close>

fun str_nat :: "nat \<Rightarrow> string" where
  "str_nat n = (if n < 10 then [''0123456789'' ! n]
                else str_nat (n div 10) @ [''0123456789'' ! (n mod 10)])"

declare str_nat.simps [simp del]

definition str_int :: "int \<Rightarrow> string" where
  "str_int i = (if i < 0 then CHR ''-'' # str_nat (nat (- i)) else str_nat (nat i))"

definition fmt_str :: "string option \<Rightarrow> string" where
  "fmt_str s = (case s of None \<Rightarrow> ''None'' | Some v \<Rightarrow> v)"

definition fmt_int :: "int option \<Rightarrow> string" where
  "fmt_int n = (case n of None \<Rightarrow> ''None'' | Some v \<Rightarrow> str_int v)"

text \<open>\<open>sep.join(xs)\<close>.\<close>

fun join :: "string \<Rightarrow> string list \<Rightarrow> string" where
  "join sep [] = []"
| "join sep [x] = x"
| "join sep (x # y # ys) = x @ sep @ join sep (y # ys)"

text \<open>\<open>s.rstrip("/")\<close>.\<close>

definition rstrip_slash :: "string \<Rightarrow> string" where
  "rstrip_slash s = rev (dropWhile (\<lambda>c. c = CHR ''/'') (rev s))"

subsection \<open>Result codes\<close>

text \<open>
  Modelled from the spec: \<^verbatim>\<open>buildbot.process.results\<close>, from which reporter.py imports
  the result codes and \<open>statusToString\<close> (lines 12 to 18 and 25), is a module of
  buildbot and is not under src/. The result codes are the seven of the spec's data
  model (success, warnings, failure, skipped, exception, retry, cancelled), numbered
  from 0 in this order as buildbot numbers them; \<open>statusToString\<close> gives the
  human-readable result, \<open>not finished\<close> for a build that has no result yet and
  \<open>Invalid status\<close> for a number that is no result code.
\<close>

definition SUCCESS :: int where "SUCCESS = 0"

definition WARNINGS :: int where "WARNINGS = 1"

definition FAILURE :: int where "FAILURE = 2"

definition SKIPPED :: int where "SKIPPED = 3"

definition EXCEPTION :: int where "EXCEPTION = 4"

definition RETRY :: int where "RETRY = 5"

definition CANCELLED :: int where "CANCELLED = 6"

definition Results :: "string list" where
  "Results = [''success'', ''warnings'', ''failure'', ''skipped'', ''exception'',
              ''retry'', ''cancelled'']"

definition statusToString :: "int option \<Rightarrow> string" where
  "statusToString status =
     (case status of
        None \<Rightarrow> ''not finished''
      | Some s \<Rightarrow>
          if s < 0 \<or> s \<ge> int (length Results) then ''Invalid status''
          else Results ! nat s)"

subsection \<open>The lookup tables (lines 31 to 49)\<close>

definition STATUS_EMOJIS :: "(string \<times> string) list" where
  "STATUS_EMOJIS =
     [(''success'', '':sunglassses:''),
      (''warnings'', '':meow_wow:''),
      (''failure'', '':skull:''),
      (''skipped'', '':slam:''),
      (''exception'', '':skull:''),
      (''retry'', '':facepalm:''),
      (''cancelled'', '':slam:'')]"

definition STATUS_COLORS :: "(string \<times> string) list" where
  "STATUS_COLORS =
     [(''success'', ''#36a64f''),
      (''warnings'', ''#fc8c03''),
      (''failure'', ''#fc0303''),
      (''skipped'', ''#fc8c03''),
      (''exception'', ''#fc0303''),
      (''retry'', ''#fc8c03''),
      (''cancelled'', ''#fc8c03'')]"

subsection \<open>The records the reporter reads\<close>

record sourcestamp =
  revision :: "string option"
  branch :: "string option"
  repository :: string
  project :: string

record buildset =
  sourcestamps :: "sourcestamp list"
  parent_buildid :: "int option"
  parent_relationship :: "string option"

record builder =
  name :: string

record build =
  buildid :: int
  builder :: builder
  complete :: bool
  results :: "int option"
  url :: string
  buildset :: buildset

record report =
  builds :: "build list"

text \<open>
  The configuration that \<open>reconfigService\<close> stores (lines 112 to 120): \<open>baseUrl\<close> is
  \<open>host_url and host_url.rstrip("/")\<close>.
\<close>

record config =
  endpoint :: string
  channel :: "string option"
  host_url :: "string option"
  username :: "string option"
  attachments :: bool

definition baseUrl :: "config \<Rightarrow> string option" where
  "baseUrl cfg = (if truthy_str (host_url cfg) then map_option rstrip_slash (host_url cfg)
                  else host_url cfg)"

subsection \<open>The outside world\<close>

text \<open>
  An HTTP response has its status code and what reading its body gives. The events are
  the calls that leave the reporter, in the order in which they are made.
\<close>

record response =
  code :: int
  content :: "exn + string"

datatype event =
    GetDetailsForBuild int
  | GetResponsibleUsersForBuild int
  | Info_no_revision
  | Info_posting string
  | Post string pydict
  | Content
  | Error_status int string
  | Error_send string "string option" exn

type_synonym world = "event list"

text \<open>
  What the outside answers. The lookup of the responsible users and the HTTP client are
  asked several times in one run, so their answers may depend on how many times they
  have been asked before.
\<close>

record env =
  getDetailsForBuild :: "build \<Rightarrow> exn + build"
  getResponsibleUsersForBuild :: "nat \<Rightarrow> int \<Rightarrow> exn + string list"
  http_post :: "nat \<Rightarrow> string \<Rightarrow> pydict \<Rightarrow> exn + response"

fun is_users_lookup :: "event \<Rightarrow> bool" where
  "is_users_lookup (GetResponsibleUsersForBuild _) = True"
| "is_users_lookup _ = False"

fun is_post :: "event \<Rightarrow> bool" where
  "is_post (Post _ _) = True"
| "is_post _ = False"

definition users_lookups :: "world \<Rightarrow> nat" where
  "users_lookups w = length (filter is_users_lookup w)"

definition posts :: "world \<Rightarrow> nat" where
  "posts w = length (filter is_post w)"

subsection \<open>getAttachments (lines 139 to 194)\<close>

definition sub_build :: "build \<Rightarrow> bool" where
  "sub_build b = truthy_int (parent_buildid (buildset b))"

definition attachment_title :: "build \<Rightarrow> sourcestamp \<Rightarrow> string" where
  "attachment_title b ss =
     (let sha = revision ss;
          title = ''Build #'' @ str_int (buildid b);
          title = (if project ss \<noteq> [] then title @ '' for '' @ project ss @ '' '' @ fmt_str sha
                   else title);
          title = (if sub_build b
                   then title @ '' '' @ fmt_str (parent_relationship (buildset b)) @ '': #''
                          @ fmt_int (parent_buildid (buildset b))
                   else title)
      in title)"

definition mk_field :: "string \<Rightarrow> string \<Rightarrow> json" where
  "mk_field t v = JDict [(''title'', JStr t), (''value'', JStr v), (''short'', JBool True)]"

text \<open>The field list of one sourcestamp (lines 158 to 180).\<close>

definition attachment_fields ::
  "env \<Rightarrow> build \<Rightarrow> sourcestamp \<Rightarrow> world \<Rightarrow> exn + (json list \<times> world)" where
  "attachment_fields e b ss w =
     (let fields = [] in
      if \<not> sub_build b then
        (let branch_name = branch ss;
             fields = (if truthy_str branch_name
                       then fields @ [mk_field ''Branch'' (the branch_name)] else fields);
             repositories = repository ss;
             fields = (if repositories \<noteq> []
                       then fields @ [mk_field ''Repository'' repositories] else fields);
             w1 = w @ [GetResponsibleUsersForBuild (buildid b)]
         in case getResponsibleUsersForBuild e (users_lookups w) (buildid b) of
              Inl x \<Rightarrow> Inl x
            | Inr responsible_users \<Rightarrow>
                Inr (if responsible_users \<noteq> []
                     then fields @ [mk_field ''Commiters'' (join '', '' responsible_users)]
                     else fields, w1))
      else Inr (fields, w))"

text \<open>The dictionary that is appended for one sourcestamp (lines 181 to 193).\<close>

definition attachment_dict :: "string \<Rightarrow> build \<Rightarrow> json list \<Rightarrow> json" where
  "attachment_dict title b flds =
     JDict
       [(''title'', JStr title),
        (''title_link'', JStr (url b)),
        (''fallback'', JStr (title @ '': <'' @ url b @ ''>'')),
        (''text'', JStr (''Status: *'' @ statusToString (results b) @ ''*'')),
        (''color'', JStr (dict_get STATUS_COLORS (statusToString (results b)) '''')),
        (''mrkdwn_in'', JList [JStr ''text'', JStr ''title'', JStr ''fallback'']),
        (''fields'', JList flds)]"

text \<open>One turn of the loop over the sourcestamps (lines 145 to 193).\<close>

definition attachment ::
  "env \<Rightarrow> build \<Rightarrow> sourcestamp \<Rightarrow> world \<Rightarrow> exn + (json \<times> world)" where
  "attachment e b ss w =
     (let title = attachment_title b ss in
      case attachment_fields e b ss w of
        Inl x \<Rightarrow> Inl x
      | Inr (flds, w1) \<Rightarrow> Inr (attachment_dict title b flds, w1))"

text \<open>The loop over the sourcestamps, with the list \<open>attachments\<close> it appends to.\<close>

fun getAttachments_loop ::
  "env \<Rightarrow> build \<Rightarrow> sourcestamp list \<Rightarrow> json list \<Rightarrow> world \<Rightarrow> exn + (json list \<times> world)" where
  "getAttachments_loop e b [] atts w = Inr (atts, w)"
| "getAttachments_loop e b (ss # rest) atts w =
     (case attachment e b ss w of
        Inl x \<Rightarrow> Inl x
      | Inr (a, w1) \<Rightarrow> getAttachments_loop e b rest (atts @ [a]) w1)"

definition getAttachments :: "env \<Rightarrow> build \<Rightarrow> world \<Rightarrow> exn + (json list \<times> world)" where
  "getAttachments e b w = getAttachments_loop e b (sourcestamps (buildset b)) [] w"

subsection \<open>getMessage (lines 219 to 225)\<close>

definition getMessage :: "build \<Rightarrow> string" where
  "getMessage b =
     (let event_messages =
            [(False, ''Buildbot started build '' @ name (builder b)),
             (True, ''Buildbot finished build '' @ name (builder b) @ '' with result: ''
                      @ statusToString (results b))]
      in case map_of event_messages (complete b) of None \<Rightarrow> '''' | Some m \<Rightarrow> m)"

subsection \<open>getBuildDetailsAndSendMessage (lines 196 to 217)\<close>

definition getExtraParams :: "build \<Rightarrow> pydict" where
  "getExtraParams b = []"

definition dict_update :: "pydict \<Rightarrow> pydict \<Rightarrow> pydict" where
  "dict_update d extra = fold (\<lambda>(k, v). AList.update k v) extra d"

text \<open>
  \<open>utils.getDetailsForBuild\<close> fills in the build dictionary in place, so the function
  returns the build as the master has completed it, next to the payload: \<open>sendMessage\<close>
  reads the sourcestamps from it.
\<close>

definition getBuildDetailsAndSendMessage ::
  "config \<Rightarrow> env \<Rightarrow> build \<Rightarrow> world \<Rightarrow> exn + (pydict \<times> build \<times> world)" where
  "getBuildDetailsAndSendMessage cfg e build0 w =
     (case getDetailsForBuild e build0 of
        Inl x \<Rightarrow> Inl x
      | Inr b \<Rightarrow>
          (let w1 = w @ [GetDetailsForBuild (buildid build0)];
               text = getMessage b;
               postData = [];
               r = (if attachments cfg then
                      (case getAttachments e b w1 of
                         Inl x \<Rightarrow> Inl x
                       | Inr (atts, w2) \<Rightarrow>
                           Inr (if atts \<noteq> []
                                then AList.update ''attachments'' (JList atts) postData
                                else postData, text, w2))
                    else Inr (postData, text @ '' here: '' @ url b, w1))
           in case r of
                Inl x \<Rightarrow> Inl x
              | Inr (postData, text, w3) \<Rightarrow>
                  (let postData = AList.update ''text'' (JStr text) postData;
                       postData = (if truthy_str (channel cfg)
                                   then AList.update ''channel'' (JStr (the (channel cfg))) postData
                                   else postData);
                       postData = AList.update ''icon_emoji''
                                    (JStr (dict_get STATUS_EMOJIS (statusToString (results b))
                                             '':facepalm:''))
                                    postData;
                       extra_params = getExtraParams b;
                       postData = dict_update postData extra_params
                   in Inr (postData, b, w3))))"

subsection \<open>sendMessage (lines 238 to 273)\<close>

text \<open>
  The body of the \<open>try\<close> statement for one sourcestamp (lines 255 to 266): the world
  after it, and the exception that left it, if any.
\<close>

definition try_post :: "config \<Rightarrow> env \<Rightarrow> pydict \<Rightarrow> world \<Rightarrow> world \<times> exn option" where
  "try_post cfg e postData w =
     (let path = (if truthy_str (baseUrl cfg) then endpoint cfg else '''');
          w1 = w @ [Post path postData]
      in case http_post e (posts w) path postData of
           Inl x \<Rightarrow> (w1, Some x)
         | Inr response \<Rightarrow>
             if code response \<noteq> 200 then
               (let w2 = w1 @ [Content] in
                case content response of
                  Inl x \<Rightarrow> (w2, Some x)
                | Inr c \<Rightarrow> (w2 @ [Error_status (code response) c], None))
             else (w1, None))"

text \<open>One turn of the loop over the sourcestamps (lines 249 to 273).\<close>

definition send_one :: "config \<Rightarrow> env \<Rightarrow> pydict \<Rightarrow> sourcestamp \<Rightarrow> world \<Rightarrow> world" where
  "send_one cfg e postData ss w =
     (let sha = revision ss;
          w1 = (if sha = None then w @ [Info_no_revision] else w);
          w2 = w1 @ [Info_posting (endpoint cfg)]
      in case try_post cfg e postData w2 of
           (w3, None) \<Rightarrow> w3
         | (w3, Some x) \<Rightarrow> w3 @ [Error_send (repository ss) sha x])"

fun sendMessage_loop :: "config \<Rightarrow> env \<Rightarrow> pydict \<Rightarrow> sourcestamp list \<Rightarrow> world \<Rightarrow> world" where
  "sendMessage_loop cfg e postData [] w = w"
| "sendMessage_loop cfg e postData (ss # rest) w =
     sendMessage_loop cfg e postData rest (send_one cfg e postData ss w)"

definition sendMessage :: "config \<Rightarrow> env \<Rightarrow> report list \<Rightarrow> world \<Rightarrow> exn + world" where
  "sendMessage cfg e reports w =
     (case reports of
        [] \<Rightarrow> Inl IndexError
      | report # _ \<Rightarrow>
          (case builds report of
             [] \<Rightarrow> Inl IndexError
           | build0 # _ \<Rightarrow>
               (case getBuildDetailsAndSendMessage cfg e build0 w of
                  Inl x \<Rightarrow> Inl x
                | Inr (postData, b, w1) \<Rightarrow>
                    if postData = [] then Inr w1
                    else Inr (sendMessage_loop cfg e postData (sourcestamps (buildset b)) w1))))"

definition buildStarted :: "config \<Rightarrow> env \<Rightarrow> report list \<Rightarrow> world \<Rightarrow> exn + world" where
  "buildStarted cfg e reports w = sendMessage cfg e reports w"

definition buildFinished :: "config \<Rightarrow> env \<Rightarrow> report list \<Rightarrow> world \<Rightarrow> exn + world" where
  "buildFinished cfg e reports w = sendMessage cfg e reports w"

subsection \<open>Closed forms used to state the results\<close>

text \<open>
  Reading a key of a dictionary value, \<open>d.get(k)\<close>: what a dictionary that the
  reporter has built holds under a key.
\<close>

definition json_get :: "json \<Rightarrow> string \<Rightarrow> json option" where
  "json_get j k = (case j of JDict d \<Rightarrow> map_of d k | _ \<Rightarrow> None)"

text \<open>
  The payload in closed form: the dictionary that the updates of lines 200 to 216 leave,
  given the attachments and the text. The lemmas \<open>assemble_with_attachments\<close> and
  \<open>assemble_without_attachments\<close> below prove that \<open>getBuildDetailsAndSendMessage\<close>
  builds it.
\<close>

definition payload :: "config \<Rightarrow> build \<Rightarrow> json list \<Rightarrow> string \<Rightarrow> pydict" where
  "payload cfg b atts text =
     (if atts \<noteq> [] then [(''attachments'', JList atts)] else []) @
     [(''text'', JStr text)] @
     (if truthy_str (channel cfg) then [(''channel'', JStr (the (channel cfg)))] else []) @
     [(''icon_emoji'', JStr (dict_get STATUS_EMOJIS (statusToString (results b)) '':facepalm:''))]"

text \<open>
  The field list as the specification words it (section 4.2): Branch if present,
  Repository if present, Commiters as a comma-joined list if any responsible users
  were found. It is compared below with the list that \<open>attachment_fields\<close> builds.
\<close>

definition spec_fields :: "sourcestamp \<Rightarrow> string list \<Rightarrow> json list" where
  "spec_fields ss us =
     (if truthy_str (branch ss) then [mk_field ''Branch'' (the (branch ss))] else []) @
     (if repository ss \<noteq> [] then [mk_field ''Repository'' (repository ss)] else []) @
     (if us \<noteq> [] then [mk_field ''Commiters'' (join '', '' us)] else [])"

subsection \<open>Example inputs\<close>

text \<open>
  The finished build of the specification's scenario (builder unit-tests, result
  SUCCESS, one sourcestamp on branch main of org/repo, no parent), a sub-build with two
  sourcestamps, a configuration with a channel and a username, and an environment whose
  HTTP client answers 500 to the first request, 200 to the second, 404 with a body that
  cannot be read to the third, and raises afterwards.
\<close>

definition ex_sourcestamp :: sourcestamp where
  "ex_sourcestamp =
     \<lparr>revision = Some ''abc123'', branch = Some ''main'', repository = ''org/repo'',
        project = ''proj''\<rparr>"

definition ex_build :: build where
  "ex_build =
     \<lparr>buildid = 42, builder = \<lparr>name = ''unit-tests''\<rparr>, complete = True,
        results = Some SUCCESS, url = ''http://ci/#/builders/1/builds/42'',
        buildset = \<lparr>sourcestamps = [ex_sourcestamp], parent_buildid = None,
                      parent_relationship = None\<rparr>\<rparr>"

definition ex_sub_build :: build where
  "ex_sub_build =
     ex_build\<lparr>buildset := \<lparr>sourcestamps = [ex_sourcestamp, ex_sourcestamp],
                              parent_buildid = Some 7,
                              parent_relationship = Some ''Triggered from''\<rparr>\<rparr>"

definition ex_config :: config where
  "ex_config =
     \<lparr>endpoint = ''https://hooks.slack.com/services/T/B/X'', channel = Some ''#ci'',
        host_url = None, username = Some ''buildbot'', attachments = True\<rparr>"

definition ex_env :: env where
  "ex_env =
     \<lparr>getDetailsForBuild = Inr,
        getResponsibleUsersForBuild = (\<lambda>k i. Inr [''ann'', ''bob'']),
        http_post = (\<lambda>k path d. if k = 0 then Inr \<lparr>code = 500, content = Inr ''boom''\<rparr>
                                 else if k = 1 then Inr \<lparr>code = 200, content = Inr ''ok''\<rparr>
                                 else if k = 2 then Inr \<lparr>code = 404, content = Inl (Exception ''reset'')\<rparr>
                                 else Inl (Exception ''timeout''))\<rparr>"

definition ex_payload :: pydict where
  "ex_payload =
     [(''attachments'',
       JList [attachment_dict ''Build #42 for proj abc123'' ex_build
                [mk_field ''Branch'' ''main'', mk_field ''Repository'' ''org/repo'',
                 mk_field ''Commiters'' ''ann, bob'']]),
      (''text'', JStr ''Buildbot finished build unit-tests with result: success''),
      (''channel'', JStr ''#ci''),
      (''icon_emoji'', JStr '':sunglassses:'')]"

section \<open>Properties\<close>

subsection \<open>The loop over the sourcestamps posts once per sourcestamp\<close>

lemma try_post_posts:
  "filter is_post (fst (try_post cfg e pd w)) =
     filter is_post w @ [Post (if truthy_str (baseUrl cfg) then endpoint cfg else '''') pd]"
  by (simp add: try_post_def Let_def split: sum.splits)

lemma send_one_posts:
  "filter is_post (send_one cfg e pd ss w) =
     filter is_post w @ [Post (if truthy_str (baseUrl cfg) then endpoint cfg else '''') pd]"
proof -
  define w2 where "w2 = (if revision ss = None then w @ [Info_no_revision] else w)
                          @ [Info_posting (endpoint cfg)]"
  obtain w3 r where t: "try_post cfg e pd w2 = (w3, r)"
    by (cases "try_post cfg e pd w2")
  have "filter is_post w3 = filter is_post w2
          @ [Post (if truthy_str (baseUrl cfg) then endpoint cfg else '''') pd]"
    using try_post_posts [of cfg e pd w2] t by simp
  moreover have "filter is_post w2 = filter is_post w"
    by (simp add: w2_def)
  moreover have "filter is_post (send_one cfg e pd ss w) = filter is_post w3"
    using t by (cases r) (simp_all add: send_one_def Let_def w2_def)
  ultimately show ?thesis by simp
qed

lemma sendMessage_loop_posts:
  "filter is_post (sendMessage_loop cfg e pd sss w) =
     filter is_post w @
     replicate (length sss) (Post (if truthy_str (baseUrl cfg) then endpoint cfg else '''') pd)"
proof (induction sss arbitrary: w)
  case Nil
  then show ?case by simp
next
  case (Cons ss sss)
  show ?case
    by (simp add: Cons.IH send_one_posts replicate_app_Cons_same)
qed

text \<open>
  C1. Whatever the HTTP client answers to each request (a response of any status, or an
  exception, also while the body is read), the loop of \<open>sendMessage\<close> over N
  sourcestamps makes exactly N POST requests, one per sourcestamp and all with the same
  payload and path, after the requests made before; over no sourcestamp it does nothing.
  The loop returns the world and has no way to raise.
\<close>

theorem dispatch_one_post_per_sourcestamp:
  "posts (sendMessage_loop cfg e postData sss w) = posts w + length sss \<and>
   filter is_post (sendMessage_loop cfg e postData sss w) =
     filter is_post w @
     replicate (length sss)
       (Post (if truthy_str (baseUrl cfg) then endpoint cfg else '''') postData) \<and>
   sendMessage_loop cfg e postData [] w = w"
  by (simp add: posts_def sendMessage_loop_posts)

text \<open>The scenario of the specification: 500 for the first of two sourcestamps.\<close>

lemma dispatch_scenario_500:
  "sendMessage_loop ex_config ex_env ex_payload [ex_sourcestamp, ex_sourcestamp] [] =
     [Info_posting ''https://hooks.slack.com/services/T/B/X'', Post '''' ex_payload, Content,
      Error_status 500 ''boom'',
      Info_posting ''https://hooks.slack.com/services/T/B/X'', Post '''' ex_payload]"
  by (simp add: send_one_def try_post_def Let_def ex_config_def ex_env_def ex_sourcestamp_def
        baseUrl_def truthy_str_def posts_def)

subsection \<open>The payload that is assembled\<close>

lemma assemble_with_attachments:
  assumes "attachments cfg"
    and "getDetailsForBuild e b0 = Inr b"
    and "getAttachments e b (w @ [GetDetailsForBuild (buildid b0)]) = Inr (atts, w')"
  shows "getBuildDetailsAndSendMessage cfg e b0 w = Inr (payload cfg b atts (getMessage b), b, w')"
  using assms
  by (simp add: getBuildDetailsAndSendMessage_def payload_def Let_def getExtraParams_def dict_update_def)

lemma assemble_without_attachments:
  assumes "\<not> attachments cfg"
    and "getDetailsForBuild e b0 = Inr b"
  shows "getBuildDetailsAndSendMessage cfg e b0 w =
           Inr (payload cfg b [] (getMessage b @ '' here: '' @ url b), b, w @ [GetDetailsForBuild (buildid b0)])"
  using assms
  by (simp add: getBuildDetailsAndSendMessage_def payload_def Let_def getExtraParams_def dict_update_def)

lemma assemble_cases:
  assumes "getBuildDetailsAndSendMessage cfg e b0 w = Inr (pd, b, w')"
  shows "getDetailsForBuild e b0 = Inr b \<and>
         (if attachments cfg
          then \<exists>atts. getAttachments e b (w @ [GetDetailsForBuild (buildid b0)]) = Inr (atts, w') \<and>
                 pd = payload cfg b atts (getMessage b)
          else w' = w @ [GetDetailsForBuild (buildid b0)] \<and>
               pd = payload cfg b [] (getMessage b @ '' here: '' @ url b))"
proof (cases "getDetailsForBuild e b0")
  case (Inl x)
  with assms show ?thesis by (simp add: getBuildDetailsAndSendMessage_def)
next
  case (Inr b1)
  show ?thesis
  proof (cases "attachments cfg")
    case False
    with Inr assms assemble_without_attachments [OF False Inr, of w] show ?thesis by auto
  next
    case True
    show ?thesis
    proof (cases "getAttachments e b1 (w @ [GetDetailsForBuild (buildid b0)])")
      case (Inl x)
      with True Inr assms show ?thesis
        by (simp add: getBuildDetailsAndSendMessage_def Let_def)
    next
      case Inr2: (Inr p)
      obtain atts w2 where p: "p = (atts, w2)" by (cases p)
      from assms assemble_with_attachments [OF True Inr Inr2 [unfolded p]] True Inr Inr2 p
      show ?thesis by auto
    qed
  qed
qed

lemma payload_keys:
  "map_of (payload cfg b atts text) ''attachments'' = (if atts \<noteq> [] then Some (JList atts) else None) \<and>
   map_of (payload cfg b atts text) ''text'' = Some (JStr text) \<and>
   map_of (payload cfg b atts text) ''channel'' =
     (if truthy_str (channel cfg) then Some (JStr (the (channel cfg))) else None) \<and>
   map_of (payload cfg b atts text) ''icon_emoji'' =
     Some (JStr (dict_get STATUS_EMOJIS (statusToString (results b)) '':facepalm:'')) \<and>
   map_of (payload cfg b atts text) ''username'' = None \<and>
   payload cfg b atts text \<noteq> []"
  by (simp add: payload_def)

lemma assembled_payload:
  assumes "getBuildDetailsAndSendMessage cfg e b0 w = Inr (pd, b, w')"
  shows "\<exists>atts text. pd = payload cfg b atts text"
  using assemble_cases [OF assms] by (cases "attachments cfg") auto

subsection \<open>The example inputs, evaluated\<close>

lemma ex_details: "getDetailsForBuild ex_env ex_build = Inr ex_build"
  by (simp add: ex_env_def)

lemma ex_message: "getMessage ex_build = ''Buildbot finished build unit-tests with result: success''"
  by (simp add: getMessage_def ex_build_def statusToString_def Results_def SUCCESS_def)

lemma ex_icon:
  "dict_get STATUS_EMOJIS (statusToString (results ex_build)) '':facepalm:'' = '':sunglassses:''"
  by (simp add: ex_build_def statusToString_def Results_def SUCCESS_def dict_get_def
        STATUS_EMOJIS_def)

lemma ex_attachments:
  "getAttachments ex_env ex_build [GetDetailsForBuild 42] =
     Inr ([attachment_dict ''Build #42 for proj abc123'' ex_build
             [mk_field ''Branch'' ''main'', mk_field ''Repository'' ''org/repo'',
              mk_field ''Commiters'' ''ann, bob'']],
          [GetDetailsForBuild 42, GetResponsibleUsersForBuild 42])"
  by (simp add: ex_env_def ex_build_def ex_sourcestamp_def getAttachments_def attachment_def
        attachment_fields_def attachment_title_def sub_build_def truthy_int_def truthy_str_def
        users_lookups_def Let_def fmt_str_def str_int_def str_nat.simps)

lemma ex_attachments_nil:
  "getAttachments ex_env ex_build [] =
     Inr ([attachment_dict ''Build #42 for proj abc123'' ex_build
             [mk_field ''Branch'' ''main'', mk_field ''Repository'' ''org/repo'',
              mk_field ''Commiters'' ''ann, bob'']],
          [GetResponsibleUsersForBuild 42])"
  by (simp add: ex_env_def ex_build_def ex_sourcestamp_def getAttachments_def attachment_def
        attachment_fields_def attachment_title_def sub_build_def truthy_int_def truthy_str_def
        users_lookups_def Let_def fmt_str_def str_int_def str_nat.simps)

lemma ex_sub_build_title:
  "attachment_title ex_sub_build ex_sourcestamp = ''Build #42 for proj abc123 Triggered from: #7''"
  by (simp add: attachment_title_def ex_sub_build_def ex_build_def ex_sourcestamp_def
        sub_build_def truthy_int_def Let_def fmt_str_def fmt_int_def str_int_def str_nat.simps)

lemma ex_assemble:
  "getBuildDetailsAndSendMessage ex_config ex_env ex_build [] =
     Inr (ex_payload, ex_build, [GetDetailsForBuild 42, GetResponsibleUsersForBuild 42])"
proof -
  have on: "attachments ex_config" by (simp add: ex_config_def)
  have id: "buildid ex_build = 42" by (simp add: ex_build_def)
  have "getAttachments ex_env ex_build ([] @ [GetDetailsForBuild (buildid ex_build)]) =
     Inr ([attachment_dict ''Build #42 for proj abc123'' ex_build
             [mk_field ''Branch'' ''main'', mk_field ''Repository'' ''org/repo'',
              mk_field ''Commiters'' ''ann, bob'']],
          [GetDetailsForBuild 42, GetResponsibleUsersForBuild 42])"
    using ex_attachments by (simp add: id)
  from assemble_with_attachments [OF on ex_details this]
  show ?thesis
    by (simp add: payload_def ex_payload_def ex_message ex_icon)
       (simp add: ex_config_def truthy_str_def)
qed

lemma ex_loop:
  "send_one ex_config ex_env ex_payload ex_sourcestamp
     [GetDetailsForBuild 42, GetResponsibleUsersForBuild 42] =
   [GetDetailsForBuild 42, GetResponsibleUsersForBuild 42,
    Info_posting ''https://hooks.slack.com/services/T/B/X'', Post '''' ex_payload, Content,
    Error_status 500 ''boom'']"
  by (simp add: send_one_def try_post_def Let_def ex_config_def ex_env_def ex_sourcestamp_def
        baseUrl_def truthy_str_def posts_def)

subsection \<open>The outcome of one POST\<close>

text \<open>
  C2. One turn of the loop, after the log lines and the POST request \<open>pre\<close>: a
  response with code 200 adds nothing; a response with any other code (every non-2xx
  code is one) has its body read and an error logged with the code and the body; an
  exception of the HTTP client, or of reading the body, is caught and logged with the
  repository, the revision and the exception. \<open>send_one\<close> returns the world in every
  case, and once the payload is assembled \<open>sendMessage\<close> returns normally whatever
  the HTTP client does: no outcome of a POST reaches the caller as an exception.
\<close>

theorem post_attempt_outcomes:
  assumes "path = (if truthy_str (baseUrl cfg) then endpoint cfg else '''')"
    and "pre = w @ (if revision ss = None then [Info_no_revision] else []) @
                 [Info_posting (endpoint cfg), Post path postData]"
  shows "(http_post e (posts w) path postData = Inr r \<and> code r = 200 \<longrightarrow>
            send_one cfg e postData ss w = pre) \<and>
         (http_post e (posts w) path postData = Inr r \<and> code r \<noteq> 200 \<and> content r = Inr c \<longrightarrow>
            send_one cfg e postData ss w = pre @ [Content, Error_status (code r) c]) \<and>
         (http_post e (posts w) path postData = Inr r \<and> code r \<noteq> 200 \<and> content r = Inl x \<longrightarrow>
            send_one cfg e postData ss w =
              pre @ [Content, Error_send (repository ss) (revision ss) x]) \<and>
         (http_post e (posts w) path postData = Inl x \<longrightarrow>
            send_one cfg e postData ss w = pre @ [Error_send (repository ss) (revision ss) x]) \<and>
         (getBuildDetailsAndSendMessage cfg e b0 w0 = Inr (postData, b, w1) \<longrightarrow>
            (\<exists>w2. sendMessage cfg e (\<lparr>builds = b0 # bs\<rparr> # rs) w0 = Inr w2))"
  using assms
  by (simp add: send_one_def try_post_def Let_def posts_def sendMessage_def)

theorem post_attempt_outcomes_witness:
  "http_post ex_env (posts []) '''' ex_payload = Inr \<lparr>code = 500, content = Inr ''boom''\<rparr> \<and>
   send_one ex_config ex_env ex_payload ex_sourcestamp [] =
     [Info_posting (endpoint ex_config), Post '''' ex_payload, Content, Error_status 500 ''boom''] \<and>
   http_post ex_env (posts [Post '''' []]) '''' ex_payload =
     Inr \<lparr>code = 200, content = Inr ''ok''\<rparr> \<and>
   send_one ex_config ex_env ex_payload ex_sourcestamp [Post '''' []] =
     [Post '''' [], Info_posting (endpoint ex_config), Post '''' ex_payload] \<and>
   http_post ex_env (posts [Post '''' [], Post '''' []]) '''' ex_payload =
     Inr \<lparr>code = 404, content = Inl (Exception ''reset'')\<rparr> \<and>
   send_one ex_config ex_env ex_payload ex_sourcestamp [Post '''' [], Post '''' []] =
     [Post '''' [], Post '''' [], Info_posting (endpoint ex_config), Post '''' ex_payload, Content,
      Error_send ''org/repo'' (Some ''abc123'') (Exception ''reset'')] \<and>
   http_post ex_env (posts [Post '''' [], Post '''' [], Post '''' []]) '''' ex_payload =
     Inl (Exception ''timeout'') \<and>
   send_one ex_config ex_env ex_payload ex_sourcestamp [Post '''' [], Post '''' [], Post '''' []] =
     [Post '''' [], Post '''' [], Post '''' [], Info_posting (endpoint ex_config),
      Post '''' ex_payload, Error_send ''org/repo'' (Some ''abc123'') (Exception ''timeout'')] \<and>
   (\<exists>w2. sendMessage ex_config ex_env [\<lparr>builds = [ex_build]\<rparr>] [] = Inr w2)"
proof -
  have p: "(if truthy_str (baseUrl ex_config) then endpoint ex_config else '''') = ''''"
    by (simp add: ex_config_def baseUrl_def truthy_str_def)
  have h0: "http_post ex_env (posts []) '''' ex_payload = Inr \<lparr>code = 500, content = Inr ''boom''\<rparr>"
    by (simp add: ex_env_def posts_def)
  have h1: "http_post ex_env (posts [Post '''' []]) '''' ex_payload =
              Inr \<lparr>code = 200, content = Inr ''ok''\<rparr>"
    by (simp add: ex_env_def posts_def)
  have h2: "http_post ex_env (posts [Post '''' [], Post '''' []]) '''' ex_payload =
              Inr \<lparr>code = 404, content = Inl (Exception ''reset'')\<rparr>"
    by (simp add: ex_env_def posts_def)
  have h3: "http_post ex_env (posts [Post '''' [], Post '''' [], Post '''' []]) '''' ex_payload =
              Inl (Exception ''timeout'')"
    by (simp add: ex_env_def posts_def)
  have s: "revision ex_sourcestamp = Some ''abc123''" "repository ex_sourcestamp = ''org/repo''"
    by (simp_all add: ex_sourcestamp_def)
  note t = post_attempt_outcomes [OF p [symmetric] refl, where e = ex_env and postData = ex_payload
             and ss = ex_sourcestamp and ?b0.0 = ex_build and ?w0.0 = "[]" and b = ex_build
             and ?w1.0 = "[GetDetailsForBuild 42, GetResponsibleUsersForBuild 42]"
             and bs = "[]" and rs = "[]"]
  from t [where w = "[]" and r = "\<lparr>code = 500, content = Inr ''boom''\<rparr>" and c = "''boom''"]
       t [where w = "[Post '''' []]" and r = "\<lparr>code = 200, content = Inr ''ok''\<rparr>"]
       t [where w = "[Post '''' [], Post '''' []]"
            and r = "\<lparr>code = 404, content = Inl (Exception ''reset'')\<rparr>"
            and x = "Exception ''reset''"]
       t [where w = "[Post '''' [], Post '''' [], Post '''' []]" and x = "Exception ''timeout''"]
       h0 h1 h2 h3 ex_assemble
  show ?thesis by (simp add: s)
qed

subsection \<open>The primary text\<close>

text \<open>
  C3. The text of \<open>getMessage\<close> depends only on the completion flag, the name of
  the builder and the result code. For a build that is not complete it is the started
  message with the name of the builder, and the result code does not occur in it; for a
  complete build it is the finished message with the name of the builder and the
  human-readable result. Builder unit-tests with result SUCCESS gives exactly
  \<open>Buildbot finished build unit-tests with result: success\<close>.
\<close>

theorem getMessage_started_finished:
  "(\<not> complete b \<longrightarrow> getMessage b = ''Buildbot started build '' @ name (builder b)) \<and>
   (complete b \<longrightarrow>
      getMessage b = ''Buildbot finished build '' @ name (builder b) @ '' with result: ''
                       @ statusToString (results b)) \<and>
   (complete b = complete b' \<and> name (builder b) = name (builder b') \<and> results b = results b'
      \<longrightarrow> getMessage b = getMessage b') \<and>
   (complete b \<and> name (builder b) = ''unit-tests'' \<and> results b = Some SUCCESS \<longrightarrow>
      getMessage b = ''Buildbot finished build unit-tests with result: success'')"
  by (simp add: getMessage_def statusToString_def Results_def SUCCESS_def)

theorem getMessage_started_finished_witness:
  "\<not> complete (ex_build\<lparr>complete := False, results := None\<rparr>) \<and>
   getMessage (ex_build\<lparr>complete := False, results := None\<rparr>) =
     ''Buildbot started build unit-tests'' \<and>
   complete ex_build \<and> name (builder ex_build) = ''unit-tests'' \<and>
   results ex_build = Some SUCCESS \<and>
   getMessage ex_build = ''Buildbot finished build unit-tests with result: success'' \<and>
   getMessage (ex_build\<lparr>url := ''elsewhere'', buildid := 1\<rparr>) = getMessage ex_build"
proof -
  have c0: "\<not> complete (ex_build\<lparr>complete := False, results := None\<rparr>)" by simp
  have n0: "name (builder (ex_build\<lparr>complete := False, results := None\<rparr>)) = ''unit-tests''"
    by (simp add: ex_build_def)
  have c1: "complete ex_build \<and> name (builder ex_build) = ''unit-tests'' \<and>
            results ex_build = Some SUCCESS"
    by (simp add: ex_build_def)
  have same: "complete ex_build = complete (ex_build\<lparr>url := ''elsewhere'', buildid := 1\<rparr>) \<and>
              name (builder ex_build) = name (builder (ex_build\<lparr>url := ''elsewhere'', buildid := 1\<rparr>)) \<and>
              results ex_build = results (ex_build\<lparr>url := ''elsewhere'', buildid := 1\<rparr>)"
    by simp
  from getMessage_started_finished [of "ex_build\<lparr>complete := False, results := None\<rparr>" ex_build] c0
  have "getMessage (ex_build\<lparr>complete := False, results := None\<rparr>) =
          ''Buildbot started build '' @ name (builder (ex_build\<lparr>complete := False, results := None\<rparr>))"
    by blast
  then have m0: "getMessage (ex_build\<lparr>complete := False, results := None\<rparr>) =
                   ''Buildbot started build unit-tests''"
    using c1 by simp
  from getMessage_started_finished [of ex_build "ex_build\<lparr>url := ''elsewhere'', buildid := 1\<rparr>"]
       c1 same
  have m1: "getMessage ex_build = ''Buildbot finished build unit-tests with result: success''"
    and m2: "getMessage ex_build = getMessage (ex_build\<lparr>url := ''elsewhere'', buildid := 1\<rparr>)"
    by blast+
  from c0 m0 c1 m1 m2 show ?thesis by simp
qed

subsection \<open>The lookup tables\<close>

lemma statusToString_in_table:
  "statusToString st \<in> set (map fst STATUS_COLORS) \<longleftrightarrow> (\<exists>r. st = Some r \<and> 0 \<le> r \<and> r < 7)"
proof (cases st)
  case None
  then show ?thesis by (simp add: statusToString_def STATUS_COLORS_def)
next
  case (Some r)
  show ?thesis
  proof (cases "0 \<le> r \<and> r < 7")
    case True
    then have "r = 0 \<or> r = 1 \<or> r = 2 \<or> r = 3 \<or> r = 4 \<or> r = 5 \<or> r = 6" by arith
    then have "statusToString (Some r) \<in> set (map fst STATUS_COLORS)"
      by (auto simp add: statusToString_def Results_def STATUS_COLORS_def)
    with Some True show ?thesis by simp
  next
    case False
    then have "statusToString (Some r) = ''Invalid status''"
      by (auto simp add: statusToString_def Results_def)
    with Some False show ?thesis by (simp add: STATUS_COLORS_def)
  qed
qed

lemma table_lookup_nonempty:
  "k \<in> set (map fst STATUS_COLORS) \<Longrightarrow>
     (\<exists>c. map_of STATUS_COLORS k = Some c \<and> c \<noteq> '''') \<and>
     (\<exists>i. map_of STATUS_EMOJIS k = Some i \<and> i \<noteq> '''')"
  by (auto simp add: STATUS_COLORS_def STATUS_EMOJIS_def)

lemma table_lookup_none:
  "k \<notin> set (map fst STATUS_COLORS) \<Longrightarrow>
     map_of STATUS_COLORS k = None \<and> map_of STATUS_EMOJIS k = None"
  by (simp add: STATUS_COLORS_def STATUS_EMOJIS_def)

lemma attachment_color:
  "json_get (attachment_dict title b flds) ''color'' =
     Some (JStr (case map_of STATUS_COLORS (statusToString (results b)) of
                   None \<Rightarrow> '''' | Some c \<Rightarrow> c))"
  by (simp add: json_get_def attachment_dict_def dict_get_def)

lemma payload_icon:
  assumes "getBuildDetailsAndSendMessage cfg e b0 w = Inr (pd, b, w')"
  shows "map_of pd ''icon_emoji'' =
           Some (JStr (case map_of STATUS_EMOJIS (statusToString (results b)) of
                         None \<Rightarrow> '':facepalm:'' | Some i \<Rightarrow> i))"
  using assembled_payload [OF assms] payload_keys by (auto simp add: dict_get_def)

text \<open>
  C4. The colour and the icon of a result are total lookups. The tables have the same
  seven keys (success, warnings, failure, skipped, exception, retry, cancelled), which
  are the strings of the result codes 0 to 6; for each of them the colour and the icon
  are non-empty strings, success having colour #36a64f and icon :sunglassses:. Where
  the reporter looks them up: the \<open>color\<close> entry of every attachment (line 189) is
  the colour of the table when the status of the build is a key and the fallback, the
  empty string, otherwise; the \<open>icon_emoji\<close> entry of every payload (lines 212 to
  214) is the icon of the table when the status is a key and the fallback :facepalm:
  otherwise. Both entries are always present: the lookups cannot fail.
\<close>

theorem status_mapping_total:
  "map fst STATUS_COLORS =
     [''success'', ''warnings'', ''failure'', ''skipped'', ''exception'', ''retry'', ''cancelled''] \<and>
   map fst STATUS_EMOJIS = map fst STATUS_COLORS \<and>
   (k \<in> set (map fst STATUS_COLORS) \<longrightarrow>
      dict_get STATUS_COLORS k '''' \<noteq> '''' \<and> dict_get STATUS_EMOJIS k '':facepalm:'' \<noteq> '''') \<and>
   (k \<notin> set (map fst STATUS_COLORS) \<longrightarrow>
      dict_get STATUS_COLORS k '''' = '''' \<and>
      dict_get STATUS_EMOJIS k '':facepalm:'' = '':facepalm:'') \<and>
   dict_get STATUS_COLORS ''success'' '''' = ''#36a64f'' \<and>
   dict_get STATUS_EMOJIS ''success'' '':facepalm:'' = '':sunglassses:'' \<and>
   (statusToString (results b) \<in> set (map fst STATUS_COLORS) \<longleftrightarrow>
      (\<exists>r. results b = Some r \<and> 0 \<le> r \<and> r < 7)) \<and>
   (\<exists>c. json_get (attachment_dict title b flds) ''color'' = Some (JStr c) \<and>
        (if statusToString (results b) \<in> set (map fst STATUS_COLORS)
         then c \<noteq> '''' \<and> map_of STATUS_COLORS (statusToString (results b)) = Some c
         else c = '''')) \<and>
   (results b = Some SUCCESS \<longrightarrow>
      json_get (attachment_dict title b flds) ''color'' = Some (JStr ''#36a64f'')) \<and>
   (getBuildDetailsAndSendMessage cfg e b0 w = Inr (pd, b, w') \<longrightarrow>
      (\<exists>i. map_of pd ''icon_emoji'' = Some (JStr i) \<and>
           (if statusToString (results b) \<in> set (map fst STATUS_COLORS)
            then i \<noteq> '''' \<and> map_of STATUS_EMOJIS (statusToString (results b)) = Some i
            else i = '':facepalm:'')) \<and>
      (results b = Some SUCCESS \<longrightarrow> map_of pd ''icon_emoji'' = Some (JStr '':sunglassses:'')))"
proof -
  let ?s = "statusToString (results b)"
  have tables: "map fst STATUS_COLORS =
     [''success'', ''warnings'', ''failure'', ''skipped'', ''exception'', ''retry'', ''cancelled''] \<and>
   map fst STATUS_EMOJIS = map fst STATUS_COLORS \<and>
   (k \<in> set (map fst STATUS_COLORS) \<longrightarrow>
      dict_get STATUS_COLORS k '''' \<noteq> '''' \<and> dict_get STATUS_EMOJIS k '':facepalm:'' \<noteq> '''') \<and>
   (k \<notin> set (map fst STATUS_COLORS) \<longrightarrow>
      dict_get STATUS_COLORS k '''' = '''' \<and>
      dict_get STATUS_EMOJIS k '':facepalm:'' = '':facepalm:'') \<and>
   dict_get STATUS_COLORS ''success'' '''' = ''#36a64f'' \<and>
   dict_get STATUS_EMOJIS ''success'' '':facepalm:'' = '':sunglassses:''"
    by (simp add: STATUS_COLORS_def STATUS_EMOJIS_def dict_get_def)
  have codes: "?s \<in> set (map fst STATUS_COLORS) \<longleftrightarrow> (\<exists>r. results b = Some r \<and> 0 \<le> r \<and> r < 7)"
    by (rule statusToString_in_table)
  have colour: "\<exists>c. json_get (attachment_dict title b flds) ''color'' = Some (JStr c) \<and>
        (if ?s \<in> set (map fst STATUS_COLORS)
         then c \<noteq> '''' \<and> map_of STATUS_COLORS ?s = Some c
         else c = '''')"
  proof (cases "?s \<in> set (map fst STATUS_COLORS)")
    case True
    from table_lookup_nonempty [OF True] obtain c where
      "map_of STATUS_COLORS ?s = Some c" "c \<noteq> ''''" by blast
    with True attachment_color [of title b flds] show ?thesis by simp
  next
    case False
    from table_lookup_none [OF False] False attachment_color [of title b flds]
    show ?thesis by simp
  qed
  have success: "results b = Some SUCCESS \<longrightarrow>
      json_get (attachment_dict title b flds) ''color'' = Some (JStr ''#36a64f'')"
    using attachment_color [of title b flds]
    by (simp add: statusToString_def Results_def SUCCESS_def STATUS_COLORS_def)
  have icon: "getBuildDetailsAndSendMessage cfg e b0 w = Inr (pd, b, w') \<longrightarrow>
      (\<exists>i. map_of pd ''icon_emoji'' = Some (JStr i) \<and>
           (if ?s \<in> set (map fst STATUS_COLORS)
            then i \<noteq> '''' \<and> map_of STATUS_EMOJIS ?s = Some i
            else i = '':facepalm:'')) \<and>
      (results b = Some SUCCESS \<longrightarrow> map_of pd ''icon_emoji'' = Some (JStr '':sunglassses:''))"
  proof
    assume a: "getBuildDetailsAndSendMessage cfg e b0 w = Inr (pd, b, w')"
    note p = payload_icon [OF a]
    have one: "\<exists>i. map_of pd ''icon_emoji'' = Some (JStr i) \<and>
           (if ?s \<in> set (map fst STATUS_COLORS)
            then i \<noteq> '''' \<and> map_of STATUS_EMOJIS ?s = Some i
            else i = '':facepalm:'')"
    proof (cases "?s \<in> set (map fst STATUS_COLORS)")
      case True
      from table_lookup_nonempty [OF True] obtain i where
        "map_of STATUS_EMOJIS ?s = Some i" "i \<noteq> ''''" by blast
      with True p show ?thesis by simp
    next
      case False
      from table_lookup_none [OF False] False p show ?thesis by simp
    qed
    have two: "results b = Some SUCCESS \<longrightarrow> map_of pd ''icon_emoji'' = Some (JStr '':sunglassses:'')"
      using p by (simp add: statusToString_def Results_def SUCCESS_def STATUS_EMOJIS_def)
    from one two show "(\<exists>i. map_of pd ''icon_emoji'' = Some (JStr i) \<and>
           (if ?s \<in> set (map fst STATUS_COLORS)
            then i \<noteq> '''' \<and> map_of STATUS_EMOJIS ?s = Some i
            else i = '':facepalm:'')) \<and>
      (results b = Some SUCCESS \<longrightarrow> map_of pd ''icon_emoji'' = Some (JStr '':sunglassses:''))"
      by blast
  qed
  from tables codes colour success icon show ?thesis by blast
qed

theorem status_mapping_total_witness:
  "''failure'' \<in> set (map fst STATUS_COLORS) \<and>
   dict_get STATUS_COLORS ''failure'' '''' \<noteq> '''' \<and>
   dict_get STATUS_EMOJIS ''failure'' '':facepalm:'' \<noteq> '''' \<and>
   ''not finished'' \<notin> set (map fst STATUS_COLORS) \<and>
   dict_get STATUS_COLORS ''not finished'' '''' = '''' \<and>
   dict_get STATUS_EMOJIS ''not finished'' '':facepalm:'' = '':facepalm:'' \<and>
   results ex_build = Some SUCCESS \<and>
   statusToString (results ex_build) \<in> set (map fst STATUS_COLORS) \<and>
   json_get (attachment_dict ''Build #42'' ex_build []) ''color'' = Some (JStr ''#36a64f'') \<and>
   getBuildDetailsAndSendMessage ex_config ex_env ex_build [] =
     Inr (ex_payload, ex_build, [GetDetailsForBuild 42, GetResponsibleUsersForBuild 42]) \<and>
   map_of ex_payload ''icon_emoji'' = Some (JStr '':sunglassses:'') \<and>
   statusToString (results (ex_build\<lparr>results := None\<rparr>)) \<notin> set (map fst STATUS_COLORS) \<and>
   json_get (attachment_dict ''Build #42'' (ex_build\<lparr>results := None\<rparr>) []) ''color'' =
     Some (JStr '''') \<and>
   (\<exists>pd w'. getBuildDetailsAndSendMessage (ex_config\<lparr>attachments := False\<rparr>) ex_env
               (ex_build\<lparr>results := None\<rparr>) [] = Inr (pd, ex_build\<lparr>results := None\<rparr>, w') \<and>
            map_of pd ''icon_emoji'' = Some (JStr '':facepalm:''))"
proof -
  have m1: "''failure'' \<in> set (map fst STATUS_COLORS)"
    by (simp add: STATUS_COLORS_def)
  have m2: "''not finished'' \<notin> set (map fst STATUS_COLORS)"
    by (simp add: STATUS_COLORS_def)
  have r1: "results ex_build = Some SUCCESS" by (simp add: ex_build_def)
  have s1: "statusToString (results ex_build) \<in> set (map fst STATUS_COLORS)"
    by (simp add: ex_build_def statusToString_def Results_def SUCCESS_def STATUS_COLORS_def)
  have s2: "statusToString (results (ex_build\<lparr>results := None\<rparr>)) \<notin> set (map fst STATUS_COLORS)"
    by (simp add: statusToString_def STATUS_COLORS_def)
  let ?b2 = "ex_build\<lparr>results := None\<rparr>"
  let ?cfg2 = "ex_config\<lparr>attachments := False\<rparr>"
  let ?pd2 = "payload ?cfg2 ?b2 [] (getMessage ?b2 @ '' here: '' @ url ?b2)"
  let ?w2 = "[] @ [GetDetailsForBuild (buildid ?b2)]"
  have off: "\<not> attachments ?cfg2" by simp
  have d: "getDetailsForBuild ex_env ?b2 = Inr ?b2"
    by (simp add: ex_env_def)
  note a = assemble_without_attachments [OF off d, of "[]"]
  note t1 = status_mapping_total [where k = "''failure''" and b = ex_build
              and title = "''Build #42''" and flds = "[]" and cfg = ex_config and e = ex_env
              and ?b0.0 = ex_build and w = "[]" and pd = ex_payload
              and w' = "[GetDetailsForBuild 42, GetResponsibleUsersForBuild 42]"]
  note t2 = status_mapping_total [where k = "''not finished''" and b = ?b2
              and title = "''Build #42''" and flds = "[]" and cfg = ?cfg2 and e = ex_env
              and ?b0.0 = ?b2 and w = "[]" and pd = ?pd2 and w' = ?w2]
  from t1 m1 have k1: "dict_get STATUS_COLORS ''failure'' '''' \<noteq> '''' \<and>
                       dict_get STATUS_EMOJIS ''failure'' '':facepalm:'' \<noteq> ''''"
    by blast
  from t2 m2 have k2: "dict_get STATUS_COLORS ''not finished'' '''' = '''' \<and>
                       dict_get STATUS_EMOJIS ''not finished'' '':facepalm:'' = '':facepalm:''"
    by blast
  from t1 r1 have c1: "json_get (attachment_dict ''Build #42'' ex_build []) ''color'' =
                         Some (JStr ''#36a64f'')"
    by blast
  from t1 r1 ex_assemble have i1: "map_of ex_payload ''icon_emoji'' = Some (JStr '':sunglassses:'')"
    by blast
  from t2 have "\<exists>c. json_get (attachment_dict ''Build #42'' ?b2 []) ''color'' = Some (JStr c) \<and>
        (if statusToString (results ?b2) \<in> set (map fst STATUS_COLORS)
         then c \<noteq> '''' \<and> map_of STATUS_COLORS (statusToString (results ?b2)) = Some c
         else c = '''')"
    by blast
  with s2 have c2: "json_get (attachment_dict ''Build #42'' ?b2 []) ''color'' = Some (JStr '''')"
    by auto
  from t2 a have "\<exists>i. map_of ?pd2 ''icon_emoji'' = Some (JStr i) \<and>
           (if statusToString (results ?b2) \<in> set (map fst STATUS_COLORS)
            then i \<noteq> '''' \<and> map_of STATUS_EMOJIS (statusToString (results ?b2)) = Some i
            else i = '':facepalm:'')"
    by blast
  with s2 have "map_of ?pd2 ''icon_emoji'' = Some (JStr '':facepalm:'')"
    by auto
  with a have i2: "\<exists>pd w'. getBuildDetailsAndSendMessage ?cfg2 ex_env ?b2 [] = Inr (pd, ?b2, w') \<and>
            map_of pd ''icon_emoji'' = Some (JStr '':facepalm:'')"
    by blast
  from m1 k1 m2 k2 r1 s1 c1 ex_assemble i1 s2 c2 i2 show ?thesis by blast
qed

subsection \<open>The fields of an attachment\<close>

lemma users_lookups_snoc:
  "users_lookups (w @ [GetResponsibleUsersForBuild i]) = Suc (users_lookups w)"
  by (simp add: users_lookups_def)

lemma attachment_sub_build:
  "sub_build b \<Longrightarrow> attachment e b ss w = Inr (attachment_dict (attachment_title b ss) b [], w)"
  by (simp add: attachment_def attachment_fields_def)

lemma getAttachments_loop_sub_build:
  "sub_build b \<Longrightarrow>
   getAttachments_loop e b sss atts w =
     Inr (atts @ map (\<lambda>ss. attachment_dict (attachment_title b ss) b []) sss, w)"
  by (induction sss arbitrary: atts) (simp_all add: attachment_sub_build)

lemma attachment_not_sub_build:
  assumes "\<not> sub_build b" and "attachment e b ss w = Inr (a, w1)"
  shows "\<exists>us. getResponsibleUsersForBuild e (users_lookups w) (buildid b) = Inr us \<and>
              a = attachment_dict (attachment_title b ss) b (spec_fields ss us) \<and>
              w1 = w @ [GetResponsibleUsersForBuild (buildid b)]"
  using assms
  by (auto simp add: attachment_def attachment_fields_def spec_fields_def Let_def
           split: sum.splits if_splits)

lemma getAttachments_loop_prefix:
  "getAttachments_loop e b sss atts w = Inr (atts', w') \<Longrightarrow>
   length atts' = length atts + length sss \<and> take (length atts) atts' = atts"
proof (induction sss arbitrary: atts w)
  case Nil
  then show ?case by simp
next
  case (Cons ss sss)
  from Cons.prems obtain a w1 where
    a: "attachment e b ss w = Inr (a, w1)" and
    r: "getAttachments_loop e b sss (atts @ [a]) w1 = Inr (atts', w')"
    by (auto split: sum.splits)
  from Cons.IH [OF r] have l: "length atts' = length (atts @ [a]) + length sss"
    and t: "take (length (atts @ [a])) atts' = atts @ [a]" by simp_all
  from t have "take (length atts) (take (length (atts @ [a])) atts') =
                 take (length atts) (atts @ [a])"
    by (rule arg_cong)
  then have "take (length atts) atts' = atts" by (simp add: min_def)
  with l show ?case by simp
qed

lemma getAttachments_loop_not_sub_build:
  assumes "\<not> sub_build b"
  shows "getAttachments_loop e b sss atts w = Inr (atts', w') \<Longrightarrow> i < length sss \<Longrightarrow>
         \<exists>us. getResponsibleUsersForBuild e (users_lookups w + i) (buildid b) = Inr us \<and>
              atts' ! (length atts + i) =
                attachment_dict (attachment_title b (sss ! i)) b (spec_fields (sss ! i) us)"
proof (induction sss arbitrary: atts w i)
  case Nil
  then show ?case by simp
next
  case (Cons ss sss)
  from Cons.prems(1) obtain a w1 where
    a: "attachment e b ss w = Inr (a, w1)" and
    r: "getAttachments_loop e b sss (atts @ [a]) w1 = Inr (atts', w')"
    by (auto split: sum.splits)
  from attachment_not_sub_build [OF assms a] obtain us where
    us: "getResponsibleUsersForBuild e (users_lookups w) (buildid b) = Inr us" and
    a_eq: "a = attachment_dict (attachment_title b ss) b (spec_fields ss us)" and
    w1: "w1 = w @ [GetResponsibleUsersForBuild (buildid b)]"
    by blast
  show ?case
  proof (cases i)
    case 0
    from getAttachments_loop_prefix [OF r]
    have "take (length (atts @ [a])) atts' = atts @ [a]" by simp
    then have "atts' ! length atts = (atts @ [a]) ! length atts"
      by (metis length_append_singleton lessI nth_take)
    then have "atts' ! length atts = a" by simp
    with 0 us a_eq show ?thesis by simp
  next
    case (Suc j)
    with Cons.prems(2) have j: "j < length sss" by simp
    from Cons.IH [OF r j] obtain us' where
      "getResponsibleUsersForBuild e (users_lookups w1 + j) (buildid b) = Inr us'" and
      "atts' ! (length (atts @ [a]) + j) =
         attachment_dict (attachment_title b (sss ! j)) b (spec_fields (sss ! j) us')"
      by blast
    with Suc w1 show ?thesis by (simp add: users_lookups_snoc)
  qed
qed

lemma json_get_fields:
  "json_get (attachment_dict title b flds) ''fields'' = Some (JList flds)"
  by (simp add: json_get_def attachment_dict_def)

text \<open>
  C5. For a sub-build (the parent build id of the buildset is set) \<open>getAttachments\<close>
  returns one attachment per sourcestamp, and the \<open>fields\<close> entry of each of these
  dictionaries is the empty list, so there is no Branch, Repository or Commiters field;
  the world is unchanged, so the lookup of the responsible users is not called.
\<close>

theorem sub_build_no_fields:
  assumes "sub_build b"
  shows "getAttachments e b w =
           Inr (map (\<lambda>ss. attachment_dict (attachment_title b ss) b [])
                  (sourcestamps (buildset b)), w) \<and>
         (\<exists>atts. getAttachments e b w = Inr (atts, w) \<and>
            length atts = length (sourcestamps (buildset b)) \<and>
            map (\<lambda>a. json_get a ''fields'') atts =
              replicate (length (sourcestamps (buildset b))) (Some (JList [])))"
proof -
  have g: "getAttachments e b w =
           Inr (map (\<lambda>ss. attachment_dict (attachment_title b ss) b [])
                  (sourcestamps (buildset b)), w)"
    using assms by (simp add: getAttachments_def getAttachments_loop_sub_build)
  have "map (\<lambda>a. json_get a ''fields'')
          (map (\<lambda>ss. attachment_dict (attachment_title b ss) b []) sss) =
        replicate (length sss) (Some (JList []))" for sss
    by (induction sss) (simp_all add: json_get_fields)
  with g show ?thesis by simp
qed

theorem sub_build_no_fields_witness:
  "sub_build ex_sub_build \<and>
   getAttachments ex_env ex_sub_build [] =
     Inr ([JDict
             [(''title'', JStr ''Build #42 for proj abc123 Triggered from: #7''),
              (''title_link'', JStr ''http://ci/#/builders/1/builds/42''),
              (''fallback'',
               JStr ''Build #42 for proj abc123 Triggered from: #7: <http://ci/#/builders/1/builds/42>''),
              (''text'', JStr ''Status: *success*''),
              (''color'', JStr ''#36a64f''),
              (''mrkdwn_in'', JList [JStr ''text'', JStr ''title'', JStr ''fallback'']),
              (''fields'', JList [])],
           JDict
             [(''title'', JStr ''Build #42 for proj abc123 Triggered from: #7''),
              (''title_link'', JStr ''http://ci/#/builders/1/builds/42''),
              (''fallback'',
               JStr ''Build #42 for proj abc123 Triggered from: #7: <http://ci/#/builders/1/builds/42>''),
              (''text'', JStr ''Status: *success*''),
              (''color'', JStr ''#36a64f''),
              (''mrkdwn_in'', JList [JStr ''text'', JStr ''title'', JStr ''fallback'']),
              (''fields'', JList [])]],
          [])"
proof -
  have s: "sub_build ex_sub_build"
    by (simp add: sub_build_def ex_sub_build_def ex_build_def truthy_int_def)
  have l: "sourcestamps (buildset ex_sub_build) = [ex_sourcestamp, ex_sourcestamp]"
    by (simp add: ex_sub_build_def ex_build_def)
  have d: "attachment_dict ''Build #42 for proj abc123 Triggered from: #7'' ex_sub_build [] =
           JDict
             [(''title'', JStr ''Build #42 for proj abc123 Triggered from: #7''),
              (''title_link'', JStr ''http://ci/#/builders/1/builds/42''),
              (''fallback'',
               JStr ''Build #42 for proj abc123 Triggered from: #7: <http://ci/#/builders/1/builds/42>''),
              (''text'', JStr ''Status: *success*''),
              (''color'', JStr ''#36a64f''),
              (''mrkdwn_in'', JList [JStr ''text'', JStr ''title'', JStr ''fallback'']),
              (''fields'', JList [])]"
    by (simp add: attachment_dict_def ex_sub_build_def ex_build_def statusToString_def
          Results_def SUCCESS_def dict_get_def STATUS_COLORS_def)
  from sub_build_no_fields [OF s, of ex_env "[]"] s show ?thesis
    by (simp add: l ex_sub_build_title d)
qed

text \<open>
  C6. For a build that is not a sub-build, when \<open>getAttachments\<close> returns, it
  returns one attachment per sourcestamp, and the \<open>fields\<close> entry of the dictionary
  of the i-th sourcestamp holds, in this order: the dictionary with title Branch, the
  branch as value and short set, when the branch is non-empty; the one with title
  Repository and the repository, when it is non-empty; the one with title Commiters and
  the comma-joined users that the i-th lookup returned, when there are any. A field
  whose value is empty is left out.
\<close>

theorem non_sub_build_fields:
  assumes "\<not> sub_build b"
    and "getAttachments e b w = Inr (atts, w')"
    and "i < length (sourcestamps (buildset b))"
    and "ss = sourcestamps (buildset b) ! i"
  shows "length atts = length (sourcestamps (buildset b)) \<and>
         (\<exists>us. getResponsibleUsersForBuild e (users_lookups w + i) (buildid b) = Inr us \<and>
            atts ! i = attachment_dict (attachment_title b ss) b
              ((if truthy_str (branch ss) then [mk_field ''Branch'' (the (branch ss))] else []) @
               (if repository ss \<noteq> [] then [mk_field ''Repository'' (repository ss)] else []) @
               (if us \<noteq> [] then [mk_field ''Commiters'' (join '', '' us)] else [])) \<and>
            json_get (atts ! i) ''fields'' =
              Some (JList
                ((if truthy_str (branch ss)
                  then [JDict [(''title'', JStr ''Branch''), (''value'', JStr (the (branch ss))),
                               (''short'', JBool True)]]
                  else []) @
                 (if repository ss \<noteq> []
                  then [JDict [(''title'', JStr ''Repository''), (''value'', JStr (repository ss)),
                               (''short'', JBool True)]]
                  else []) @
                 (if us \<noteq> []
                  then [JDict [(''title'', JStr ''Commiters''), (''value'', JStr (join '', '' us)),
                               (''short'', JBool True)]]
                  else []))))"
proof -
  from assms(2) have l: "getAttachments_loop e b (sourcestamps (buildset b)) [] w = Inr (atts, w')"
    by (simp add: getAttachments_def)
  from getAttachments_loop_prefix [OF l] have n: "length atts = length (sourcestamps (buildset b))"
    by simp
  from getAttachments_loop_not_sub_build [OF assms(1) l assms(3)] assms(4)
  obtain us where
    us: "getResponsibleUsersForBuild e (users_lookups w + i) (buildid b) = Inr us" and
    a: "atts ! i = attachment_dict (attachment_title b ss) b (spec_fields ss us)"
    by auto
  from a have "json_get (atts ! i) ''fields'' = Some (JList (spec_fields ss us))"
    by (simp add: json_get_fields)
  with n us a show ?thesis
    by (simp add: spec_fields_def mk_field_def)
qed

theorem non_sub_build_fields_witness:
  "\<not> sub_build ex_build \<and>
   getAttachments ex_env ex_build [] =
     Inr ([JDict
             [(''title'', JStr ''Build #42 for proj abc123''),
              (''title_link'', JStr ''http://ci/#/builders/1/builds/42''),
              (''fallback'', JStr ''Build #42 for proj abc123: <http://ci/#/builders/1/builds/42>''),
              (''text'', JStr ''Status: *success*''),
              (''color'', JStr ''#36a64f''),
              (''mrkdwn_in'', JList [JStr ''text'', JStr ''title'', JStr ''fallback'']),
              (''fields'',
               JList
                 [JDict [(''title'', JStr ''Branch''), (''value'', JStr ''main''),
                         (''short'', JBool True)],
                  JDict [(''title'', JStr ''Repository''), (''value'', JStr ''org/repo''),
                         (''short'', JBool True)],
                  JDict [(''title'', JStr ''Commiters''), (''value'', JStr ''ann, bob''),
                         (''short'', JBool True)]])]],
          [GetResponsibleUsersForBuild 42]) \<and>
   (0::nat) < length (sourcestamps (buildset ex_build)) \<and>
   ex_sourcestamp = sourcestamps (buildset ex_build) ! 0 \<and>
   getResponsibleUsersForBuild ex_env (users_lookups [] + 0) (buildid ex_build) =
     Inr [''ann'', ''bob''] \<and>
   json_get
     (JDict
        [(''title'', JStr ''Build #42 for proj abc123''),
         (''title_link'', JStr ''http://ci/#/builders/1/builds/42''),
         (''fallback'', JStr ''Build #42 for proj abc123: <http://ci/#/builders/1/builds/42>''),
         (''text'', JStr ''Status: *success*''),
         (''color'', JStr ''#36a64f''),
         (''mrkdwn_in'', JList [JStr ''text'', JStr ''title'', JStr ''fallback'']),
         (''fields'',
          JList
            [JDict [(''title'', JStr ''Branch''), (''value'', JStr ''main''),
                    (''short'', JBool True)],
             JDict [(''title'', JStr ''Repository''), (''value'', JStr ''org/repo''),
                    (''short'', JBool True)],
             JDict [(''title'', JStr ''Commiters''), (''value'', JStr ''ann, bob''),
                    (''short'', JBool True)]])]) ''fields'' =
     Some (JList
             [JDict [(''title'', JStr ''Branch''), (''value'', JStr ''main''),
                     (''short'', JBool True)],
              JDict [(''title'', JStr ''Repository''), (''value'', JStr ''org/repo''),
                     (''short'', JBool True)],
              JDict [(''title'', JStr ''Commiters''), (''value'', JStr ''ann, bob''),
                     (''short'', JBool True)]])"
proof -
  have n: "\<not> sub_build ex_build"
    by (simp add: sub_build_def ex_build_def truthy_int_def)
  have i: "(0::nat) < length (sourcestamps (buildset ex_build))"
    by (simp add: ex_build_def)
  have s: "ex_sourcestamp = sourcestamps (buildset ex_build) ! 0"
    by (simp add: ex_build_def)
  have u: "getResponsibleUsersForBuild ex_env (users_lookups [] + 0) (buildid ex_build) =
             Inr [''ann'', ''bob'']"
    by (simp add: ex_env_def)
  have v: "truthy_str (branch ex_sourcestamp)" "the (branch ex_sourcestamp) = ''main''"
    "repository ex_sourcestamp = ''org/repo''" "join '', '' [''ann'', ''bob''] = ''ann, bob''"
    by (simp_all add: ex_sourcestamp_def truthy_str_def)
  have d: "attachment_dict ''Build #42 for proj abc123'' ex_build
             [mk_field ''Branch'' ''main'', mk_field ''Repository'' ''org/repo'',
              mk_field ''Commiters'' ''ann, bob''] =
           JDict
             [(''title'', JStr ''Build #42 for proj abc123''),
              (''title_link'', JStr ''http://ci/#/builders/1/builds/42''),
              (''fallback'', JStr ''Build #42 for proj abc123: <http://ci/#/builders/1/builds/42>''),
              (''text'', JStr ''Status: *success*''),
              (''color'', JStr ''#36a64f''),
              (''mrkdwn_in'', JList [JStr ''text'', JStr ''title'', JStr ''fallback'']),
              (''fields'',
               JList
                 [JDict [(''title'', JStr ''Branch''), (''value'', JStr ''main''),
                         (''short'', JBool True)],
                  JDict [(''title'', JStr ''Repository''), (''value'', JStr ''org/repo''),
                         (''short'', JBool True)],
                  JDict [(''title'', JStr ''Commiters''), (''value'', JStr ''ann, bob''),
                         (''short'', JBool True)]])]"
    by (simp add: attachment_dict_def mk_field_def ex_build_def statusToString_def
          Results_def SUCCESS_def dict_get_def STATUS_COLORS_def)
  from non_sub_build_fields [OF n ex_attachments_nil i s] u
  have "json_get
          ([attachment_dict ''Build #42 for proj abc123'' ex_build
             [mk_field ''Branch'' ''main'', mk_field ''Repository'' ''org/repo'',
              mk_field ''Commiters'' ''ann, bob'']] ! 0) ''fields'' =
        Some (JList
             [JDict [(''title'', JStr ''Branch''), (''value'', JStr ''main''),
                     (''short'', JBool True)],
              JDict [(''title'', JStr ''Repository''), (''value'', JStr ''org/repo''),
                     (''short'', JBool True)],
              JDict [(''title'', JStr ''Commiters''), (''value'', JStr ''ann, bob''),
                     (''short'', JBool True)]])"
    by (auto simp add: v)
  with n ex_attachments_nil i s u show ?thesis
    by (simp add: d)
qed

subsection \<open>Attachments or the URL\<close>

text \<open>
  C7. When the details of the build are available: with attachments disabled the
  payload has no attachments key and its text is the message followed by
  \<open>here:\<close> and the URL of the build; with attachments enabled and at least one
  attachment rendered, the payload has the attachments and its text is the message
  alone, with no URL appended.
\<close>

theorem attachments_disabled_appends_url:
  assumes "getDetailsForBuild e b0 = Inr b"
  shows "(\<not> attachments cfg \<longrightarrow>
           (\<exists>pd w'. getBuildDetailsAndSendMessage cfg e b0 w = Inr (pd, b, w') \<and>
              map_of pd ''attachments'' = None \<and>
              map_of pd ''text'' = Some (JStr (getMessage b @ '' here: '' @ url b)))) \<and>
         (attachments cfg \<and>
          getAttachments e b (w @ [GetDetailsForBuild (buildid b0)]) = Inr (atts, w1) \<and> atts \<noteq> []
            \<longrightarrow>
           (\<exists>pd. getBuildDetailsAndSendMessage cfg e b0 w = Inr (pd, b, w1) \<and>
              map_of pd ''attachments'' = Some (JList atts) \<and>
              map_of pd ''text'' = Some (JStr (getMessage b))))"
proof (intro conjI impI)
  assume off: "\<not> attachments cfg"
  from assemble_without_attachments [OF off assms, of w] payload_keys
  show "\<exists>pd w'. getBuildDetailsAndSendMessage cfg e b0 w = Inr (pd, b, w') \<and>
              map_of pd ''attachments'' = None \<and>
              map_of pd ''text'' = Some (JStr (getMessage b @ '' here: '' @ url b))"
    by simp
next
  assume on: "attachments cfg \<and>
          getAttachments e b (w @ [GetDetailsForBuild (buildid b0)]) = Inr (atts, w1) \<and> atts \<noteq> []"
  then have "getBuildDetailsAndSendMessage cfg e b0 w = Inr (payload cfg b atts (getMessage b), b, w1)"
    using assemble_with_attachments [OF _ assms] by blast
  with on payload_keys
  show "\<exists>pd. getBuildDetailsAndSendMessage cfg e b0 w = Inr (pd, b, w1) \<and>
              map_of pd ''attachments'' = Some (JList atts) \<and>
              map_of pd ''text'' = Some (JStr (getMessage b))"
    by simp
qed

theorem attachments_disabled_appends_url_witness:
  "getDetailsForBuild ex_env ex_build = Inr ex_build \<and>
   \<not> attachments (ex_config\<lparr>attachments := False\<rparr>) \<and>
   (\<exists>pd w'. getBuildDetailsAndSendMessage (ex_config\<lparr>attachments := False\<rparr>) ex_env ex_build [] =
        Inr (pd, ex_build, w') \<and>
      map_of pd ''attachments'' = None \<and>
      map_of pd ''text'' =
        Some (JStr (''Buildbot finished build unit-tests with result: success here: ''
                      @ ''http://ci/#/builders/1/builds/42''))) \<and>
   attachments ex_config \<and>
   (\<exists>pd. getBuildDetailsAndSendMessage ex_config ex_env ex_build [] =
        Inr (pd, ex_build, [GetDetailsForBuild 42, GetResponsibleUsersForBuild 42]) \<and>
      map_of pd ''attachments'' =
        Some (JList [attachment_dict ''Build #42 for proj abc123'' ex_build
                       [mk_field ''Branch'' ''main'', mk_field ''Repository'' ''org/repo'',
                        mk_field ''Commiters'' ''ann, bob'']]) \<and>
      map_of pd ''text'' = Some (JStr ''Buildbot finished build unit-tests with result: success''))"
proof -
  have off: "\<not> attachments (ex_config\<lparr>attachments := False\<rparr>)" by simp
  have on: "attachments ex_config" by (simp add: ex_config_def)
  have u: "url ex_build = ''http://ci/#/builders/1/builds/42''" "buildid ex_build = 42"
    by (simp_all add: ex_build_def)
  from attachments_disabled_appends_url [OF ex_details,
         where cfg = "ex_config\<lparr>attachments := False\<rparr>" and w = "[]"]
       attachments_disabled_appends_url [OF ex_details, where cfg = ex_config and w = "[]"
         and atts = "[attachment_dict ''Build #42 for proj abc123'' ex_build
                       [mk_field ''Branch'' ''main'', mk_field ''Repository'' ''org/repo'',
                        mk_field ''Commiters'' ''ann, bob'']]"
         and ?w1.0 = "[GetDetailsForBuild 42, GetResponsibleUsersForBuild 42]"]
       ex_attachments ex_details off on
  show ?thesis by (simp add: u ex_message)
qed

subsection \<open>Channel and username\<close>

text \<open>
  The channel is in the payload exactly when it is configured and non-empty; the
  payload never has a username key, whatever the configuration.
\<close>

lemma channel_applied_username_not:
  assumes "getBuildDetailsAndSendMessage cfg e b0 w = Inr (pd, b, w')"
  shows "map_of pd ''channel'' =
           (if truthy_str (channel cfg) then Some (JStr (the (channel cfg))) else None) \<and>
         map_of pd ''username'' = None"
  using assembled_payload [OF assms] payload_keys by auto

text \<open>
  C8. The channel and the username of the configuration are each put into the payload
  exactly when they are non-empty. The channel is; the username is stored by
  \<open>reconfigService\<close> and then never read: with the username buildbot configured,
  the payload of the example build has the keys attachments, text, channel and
  icon_emoji, and no username.
\<close>

theorem username_never_in_payload:
  "username ex_config = Some ''buildbot'' \<and>
   getBuildDetailsAndSendMessage ex_config ex_env ex_build [] =
     Inr (ex_payload, ex_build, [GetDetailsForBuild 42, GetResponsibleUsersForBuild 42]) \<and>
   map fst ex_payload = [''attachments'', ''text'', ''channel'', ''icon_emoji''] \<and>
   map_of ex_payload ''channel'' = Some (JStr ''#ci'') \<and>
   map_of ex_payload ''username'' = None"
  using ex_assemble by (simp add: ex_payload_def ex_config_def)

subsection \<open>The payload is never empty\<close>

text \<open>
  C9. Whenever \<open>getBuildDetailsAndSendMessage\<close> returns a payload, the payload has
  a text key with a string and an icon_emoji key, the icon being :facepalm: for a status
  that is not in the table; so the payload is not the empty dictionary, \<open>sendMessage\<close>
  never takes the branch \<open>if not postData: return\<close> and runs the loop, which posts
  once per sourcestamp: with at least one sourcestamp a POST is made.
\<close>

theorem payload_never_empty:
  assumes "getBuildDetailsAndSendMessage cfg e b0 w = Inr (pd, b, w')"
  shows "(\<exists>t. map_of pd ''text'' = Some (JStr t)) \<and>
         map_of pd ''icon_emoji'' =
           Some (JStr (dict_get STATUS_EMOJIS (statusToString (results b)) '':facepalm:'')) \<and>
         (statusToString (results b) \<notin> set (map fst STATUS_EMOJIS) \<longrightarrow>
            map_of pd ''icon_emoji'' = Some (JStr '':facepalm:'')) \<and>
         pd \<noteq> [] \<and>
         sendMessage cfg e (\<lparr>builds = b0 # bs\<rparr> # rs) w =
           Inr (sendMessage_loop cfg e pd (sourcestamps (buildset b)) w') \<and>
         posts (sendMessage_loop cfg e pd (sourcestamps (buildset b)) w') =
           posts w' + length (sourcestamps (buildset b)) \<and>
         (sourcestamps (buildset b) \<noteq> [] \<longrightarrow>
            posts w' < posts (sendMessage_loop cfg e pd (sourcestamps (buildset b)) w'))"
proof -
  from assembled_payload [OF assms] obtain atts msg where pd: "pd = payload cfg b atts msg"
    by blast
  have fallback: "k \<notin> set (map fst STATUS_EMOJIS) \<Longrightarrow> dict_get STATUS_EMOJIS k '':facepalm:'' = '':facepalm:''" for k
    by (simp add: dict_get_def map_of_eq_None_iff [THEN iffD2])
  have ne: "pd \<noteq> []" using pd payload_keys by simp
  have p: "posts (sendMessage_loop cfg e pd (sourcestamps (buildset b)) w') =
           posts w' + length (sourcestamps (buildset b))"
    by (simp add: posts_def sendMessage_loop_posts)
  show ?thesis
    using pd payload_keys [of cfg b atts msg] ne p assms fallback
    by (simp add: sendMessage_def)
qed

theorem payload_never_empty_witness:
  "getBuildDetailsAndSendMessage ex_config ex_env ex_build [] =
     Inr (ex_payload, ex_build, [GetDetailsForBuild 42, GetResponsibleUsersForBuild 42]) \<and>
   map_of ex_payload ''icon_emoji'' = Some (JStr '':sunglassses:'') \<and>
   ex_payload \<noteq> [] \<and>
   sourcestamps (buildset ex_build) \<noteq> [] \<and>
   sendMessage ex_config ex_env [\<lparr>builds = [ex_build]\<rparr>] [] =
     Inr [GetDetailsForBuild 42, GetResponsibleUsersForBuild 42,
          Info_posting ''https://hooks.slack.com/services/T/B/X'', Post '''' ex_payload, Content,
          Error_status 500 ''boom''] \<and>
   posts [GetDetailsForBuild 42, GetResponsibleUsersForBuild 42] <
     posts [GetDetailsForBuild 42, GetResponsibleUsersForBuild 42,
            Info_posting ''https://hooks.slack.com/services/T/B/X'', Post '''' ex_payload, Content,
            Error_status 500 ''boom'']"
proof -
  have l: "sourcestamps (buildset ex_build) = [ex_sourcestamp]"
    by (simp add: ex_build_def)
  from payload_never_empty [OF ex_assemble, of "[]" "[]"] ex_assemble
  show ?thesis by (simp add: l ex_loop ex_icon posts_def)
qed

subsection \<open>The first build of the first report\<close>

text \<open>
  C10. \<open>sendMessage\<close>, which \<open>buildStarted\<close> and \<open>buildFinished\<close> both call,
  reads \<open>reports[0]\<close> and \<open>report['builds'][0]\<close>: with no report, or with no build in
  the first report, it fails with IndexError and does nothing else; otherwise the
  result is that of the first build of the first report alone, the other reports and
  builds being ignored.
\<close>

theorem sendMessage_first_report_first_build:
  "sendMessage cfg e [] w = Inl IndexError \<and>
   (builds r = [] \<longrightarrow> sendMessage cfg e (r # rs) w = Inl IndexError) \<and>
   (builds r = b0 # bs \<longrightarrow>
      sendMessage cfg e (r # rs) w = sendMessage cfg e [\<lparr>builds = [b0]\<rparr>] w) \<and>
   buildStarted cfg e reports w = sendMessage cfg e reports w \<and>
   buildFinished cfg e reports w = sendMessage cfg e reports w"
  by (simp add: sendMessage_def buildStarted_def buildFinished_def)

theorem sendMessage_first_report_first_build_witness:
  "builds \<lparr>builds = []\<rparr> = [] \<and>
   sendMessage ex_config ex_env [\<lparr>builds = []\<rparr>, \<lparr>builds = [ex_build]\<rparr>] [] = Inl IndexError \<and>
   builds \<lparr>builds = [ex_build, ex_sub_build]\<rparr> = ex_build # [ex_sub_build] \<and>
   sendMessage ex_config ex_env
     [\<lparr>builds = [ex_build, ex_sub_build]\<rparr>, \<lparr>builds = [ex_sub_build]\<rparr>] [] =
     sendMessage ex_config ex_env [\<lparr>builds = [ex_build]\<rparr>] []"
  using sendMessage_first_report_first_build
          [where r = "\<lparr>builds = []\<rparr>" and cfg = ex_config and e = ex_env
             and rs = "[\<lparr>builds = [ex_build]\<rparr>]" and w = "[]"]
        sendMessage_first_report_first_build
          [where r = "\<lparr>builds = [ex_build, ex_sub_build]\<rparr>" and cfg = ex_config and e = ex_env
             and rs = "[\<lparr>builds = [ex_sub_build]\<rparr>]" and w = "[]" and ?b0.0 = ex_build
             and bs = "[ex_sub_build]"]
  by simp

end
